theory Spec2Isabelle
  imports Complex_Main
begin

section \<open>Double arithmetic as a parameter\<close>

text \<open>
  The script \<open>scripts/download_lp.py\<close> computes with IEEE doubles, through Python's
  \<open>math\<close> module and numpy. What these operations return is fixed by the machine and its
  libraries, not by the script, so the operations are a parameter of the model: a record
  over a type \<open>'f\<close> of doubles (\<open>nan\<close> and the infinities included). A theorem stated for
  every such record holds for the doubles, whatever their rounding.

  Of the operations only \<open>math.tan\<close> and \<open>math.log\<close> can raise (\<open>ValueError\<close>, math domain
  error); numpy's never do: a division by zero yields \<open>nan\<close> or an infinity and a warning.
  \<open>f_of_int\<close> is the double of an integer: the literals \<open>2.0\<close> and \<open>4.0\<close>, the elements of
  \<open>np.arange\<close>, and the integer operands that numpy converts.
\<close>

datatype error = MathDomainError | IndexError | FromarrayError

record 'f float_ops =
  f_of_int :: "int \<Rightarrow> 'f"
  f_pi :: "'f"
  f_add :: "'f \<Rightarrow> 'f \<Rightarrow> 'f"
  f_sub :: "'f \<Rightarrow> 'f \<Rightarrow> 'f"
  f_mul :: "'f \<Rightarrow> 'f \<Rightarrow> 'f"
  f_div :: "'f \<Rightarrow> 'f \<Rightarrow> 'f"
  f_radians :: "'f \<Rightarrow> 'f"
  f_tan :: "'f \<Rightarrow> error + 'f"
  f_log :: "'f \<Rightarrow> error + 'f"
  f_exp :: "'f \<Rightarrow> 'f"
  f_arctan :: "'f \<Rightarrow> 'f"
  f_degrees :: "'f \<Rightarrow> 'f"
  f_round :: "'f \<Rightarrow> 'f"
  f_to_int32 :: "'f \<Rightarrow> int"

section \<open>\<open>_merc_y\<close> and the row-index map\<close>

text \<open>
  The body of \<open>_merc_y\<close>, line 147:
  \<open>math.log(math.tan(math.pi / 4.0 + math.radians(lat_deg) / 2.0))\<close>.
\<close>

definition merc_y :: "'f float_ops \<Rightarrow> 'f \<Rightarrow> error + 'f" where
  "merc_y ops lat_deg =
     (case f_tan ops (f_add ops (f_div ops (f_pi ops) (f_of_int ops 4))
                                (f_div ops (f_radians ops lat_deg) (f_of_int ops 2))) of
        Inl e \<Rightarrow> Inl e
      | Inr t \<Rightarrow> f_log ops t)"

text \<open>
  A call of \<open>_merc_y\<close>. The model of \<open>reproject\<close> threads the list of the latitudes at
  which \<open>_merc_y\<close> has been called so far through every step, and a call is the only
  way it evaluates \<open>_merc_y\<close>: the call appends its argument and evaluates the body.
\<close>

definition call_merc_y :: "'f float_ops \<Rightarrow> 'f \<Rightarrow> 'f list \<Rightarrow> (error + 'f) \<times> 'f list" where
  "call_merc_y ops lat_deg calls = (merc_y ops lat_deg, calls @ [lat_deg])"

text \<open>Lines 185-186: \<open>merc_max\<close> first, then \<open>merc_min\<close>.\<close>

definition merc_extremes ::
  "'f float_ops \<Rightarrow> 'f \<Rightarrow> 'f \<Rightarrow> 'f list \<Rightarrow> (error + 'f \<times> 'f) \<times> 'f list" where
  "merc_extremes ops lat_min lat_max calls =
     (case call_merc_y ops lat_max calls of
        (Inl e, calls1) \<Rightarrow> (Inl e, calls1)
      | (Inr merc_max, calls1) \<Rightarrow>
          (case call_merc_y ops lat_min calls1 of
             (Inl e, calls2) \<Rightarrow> (Inl e, calls2)
           | (Inr merc_min, calls2) \<Rightarrow> (Inr (merc_max, merc_min), calls2)))"

text \<open>Line 189: \<open>np.arange(out_h, dtype=np.float64) / (out_h - 1)\<close>.\<close>

definition fraction :: "'f float_ops \<Rightarrow> nat \<Rightarrow> 'f list" where
  "fraction ops out_h =
     map (\<lambda>i. f_div ops (f_of_int ops (int i)) (f_of_int ops (int out_h - 1))) [0..<out_h]"

text \<open>Line 192: \<open>merc_max - fraction * (merc_max - merc_min)\<close>.\<close>

definition merc_vals :: "'f float_ops \<Rightarrow> 'f \<Rightarrow> 'f \<Rightarrow> 'f list \<Rightarrow> 'f list" where
  "merc_vals ops merc_max merc_min fr =
     map (\<lambda>f. f_sub ops merc_max (f_mul ops f (f_sub ops merc_max merc_min))) fr"

text \<open>
  Line 193, \<open>np.degrees(2.0 * np.arctan(np.exp(merc_vals)) - math.pi / 2.0)\<close>: the
  expression on one element, and over the array.
\<close>

definition inv_merc_y :: "'f float_ops \<Rightarrow> 'f \<Rightarrow> 'f" where
  "inv_merc_y ops m =
     f_degrees ops (f_sub ops (f_mul ops (f_of_int ops 2) (f_arctan ops (f_exp ops m)))
                              (f_div ops (f_pi ops) (f_of_int ops 2)))"

definition lats :: "'f float_ops \<Rightarrow> 'f list \<Rightarrow> 'f list" where
  "lats ops mv = map (inv_merc_y ops) mv"

text \<open>\<open>np.clip(a, lo, hi)\<close> on integers is \<open>minimum(maximum(a, lo), hi)\<close>.\<close>

definition np_clip :: "int \<Rightarrow> int \<Rightarrow> int \<Rightarrow> int" where
  "np_clip v lo hi = min (max v lo) hi"

text \<open>
  Lines 196-200:
  \<open>np.clip(np.round((lat_max - lats) / (lat_max - lat_min) * src_h).astype(np.int32), 0, src_h - 1)\<close>.
\<close>

definition y_src :: "'f float_ops \<Rightarrow> 'f \<Rightarrow> 'f \<Rightarrow> nat \<Rightarrow> 'f list \<Rightarrow> int list" where
  "y_src ops lat_min lat_max src_h ls =
     map (\<lambda>l. np_clip
                (f_to_int32 ops
                  (f_round ops
                    (f_mul ops (f_div ops (f_sub ops lat_max l) (f_sub ops lat_max lat_min))
                               (f_of_int ops (int src_h)))))
                0 (int src_h - 1)) ls"

text \<open>Lines 185-200 of \<open>reproject\<close>, for a source array of \<open>src_h\<close> rows (\<open>out_h = src_h\<close>).\<close>

definition row_index_map ::
  "'f float_ops \<Rightarrow> 'f \<Rightarrow> 'f \<Rightarrow> nat \<Rightarrow> 'f list \<Rightarrow> (error + int list) \<times> 'f list" where
  "row_index_map ops lat_min lat_max src_h calls =
     (case merc_extremes ops lat_min lat_max calls of
        (Inl e, calls') \<Rightarrow> (Inl e, calls')
      | (Inr (merc_max, merc_min), calls') \<Rightarrow>
          (Inr (y_src ops lat_min lat_max src_h
                  (lats ops (merc_vals ops merc_max merc_min (fraction ops src_h)))),
           calls'))"

section \<open>Images and the resampling step\<close>

text \<open>
  What \<open>reproject\<close> reads of the opened image: its mode string, the result of
  \<open>getpalette()\<close>, the \<open>transparency\<close> entry of \<open>info\<close> (an index, or the bytes of a
  \<open>tRNS\<close> table) and the pixel array \<open>np.array(img)\<close>, a list of rows. A row is a list of
  pixels; a pixel is an index in mode \<open>P\<close> and a list of channel values otherwise.
\<close>

datatype transparency = TIndex nat | TBytes "nat list"

record 'px image =
  mode :: string
  getpalette :: "nat list option"
  info_transparency :: "transparency option"
  pixels :: "'px list list"

text \<open>
  What \<open>reproject\<close> writes: \<open>saved_palette = None\<close> means that \<open>putpalette\<close> was not
  called, \<open>saved_transparency = None\<close> that \<open>save\<close> got no \<open>transparency\<close> argument.
\<close>

record 'px saved_image =
  saved_mode :: string
  saved_palette :: "nat list option"
  saved_transparency :: "transparency option"
  saved_pixels :: "'px list list"

text \<open>
  Line 202, \<open>arr[y_src]\<close>: selection of rows by an integer array. A negative index counts
  from the end, an index outside \<open>[-H, H)\<close> raises \<open>IndexError\<close>.
\<close>

fun take_rows :: "'r list \<Rightarrow> int list \<Rightarrow> error + 'r list" where
  "take_rows arr [] = Inr []"
| "take_rows arr (k # ks) =
     (let n = int (length arr); j = (if k < 0 then k + n else k)
      in if 0 \<le> j \<and> j < n
         then (case take_rows arr ks of Inl e \<Rightarrow> Inl e | Inr rs \<Rightarrow> Inr (arr ! nat j # rs))
         else Inl IndexError)"

text \<open>
  Line 204, \<open>Image.fromarray(out_arr, mode=img.mode)\<close>. For the modes the docstring of
  \<open>reproject\<close> names (\<open>P\<close>, \<open>RGB\<close>, \<open>RGBA\<close>) the array holds one byte per pixel and channel
  and the new image holds the same values. For any other mode what the imaging library
  makes of the array, or whether it raises, is the parameter \<open>other\<close>.
\<close>

definition fromarray ::
  "(string \<Rightarrow> 'px list list \<Rightarrow> error + 'px list list) \<Rightarrow> 'px list list \<Rightarrow> string
     \<Rightarrow> error + 'px list list" where
  "fromarray other out_arr m =
     (if m = ''P'' \<or> m = ''RGB'' \<or> m = ''RGBA'' then Inr out_arr else other m out_arr)"

text \<open>Python truth of \<open>palette\<close>: neither \<open>None\<close> nor an empty list.\<close>

definition truthy :: "nat list option \<Rightarrow> bool" where
  "truthy p = (case p of None \<Rightarrow> False | Some xs \<Rightarrow> xs \<noteq> [])"

text \<open>
  Lines 177-179 and 202-212: palette and transparency are read, the rows selected, the
  image rebuilt in the source's mode, the palette put back and the image saved.
\<close>

definition resample ::
  "(string \<Rightarrow> 'px list list \<Rightarrow> error + 'px list list) \<Rightarrow> 'px image \<Rightarrow> int list
     \<Rightarrow> error + 'px saved_image" where
  "resample other img ys =
     (let is_palette = (mode img = ''P'');
          palette = (if is_palette then getpalette img else None);
          transparency = info_transparency img
      in case take_rows (pixels img) ys of
           Inl e \<Rightarrow> Inl e
         | Inr out_arr \<Rightarrow>
             (case fromarray other out_arr (mode img) of
                Inl e \<Rightarrow> Inl e
              | Inr out_px \<Rightarrow>
                  Inr \<lparr> saved_mode = mode img,
                        saved_palette = (if is_palette \<and> truthy palette then palette else None),
                        saved_transparency = transparency,
                        saved_pixels = out_px \<rparr>))"

text \<open>
  \<open>reproject\<close>, lines 176-212: the result and the list of the calls of \<open>_merc_y\<close>.
\<close>

definition reproject ::
  "'f float_ops \<Rightarrow> (string \<Rightarrow> 'px list list \<Rightarrow> error + 'px list list) \<Rightarrow> 'px image
     \<Rightarrow> 'f \<Rightarrow> 'f \<Rightarrow> 'f list \<Rightarrow> (error + 'px saved_image) \<times> 'f list" where
  "reproject ops other img lat_min lat_max calls =
     (case row_index_map ops lat_min lat_max (length (pixels img)) calls of
        (Inl e, calls') \<Rightarrow> (Inl e, calls')
      | (Inr ys, calls') \<Rightarrow> (resample other img ys, calls'))"

section \<open>The specification's formula\<close>

text \<open>
  Sections 4.2 and 4.3 of the specification, written from its words, over the same double
  operations: the inverse projector and the source row of output row \<open>i\<close>, given the two
  Mercator extremes. The conversion to an integer stands between the rounding and the
  clamp, as in every implementation that indexes by the result.
\<close>

definition inverseMercatorY :: "'f float_ops \<Rightarrow> 'f \<Rightarrow> 'f" where
  "inverseMercatorY ops y =
     f_degrees ops (f_sub ops (f_mul ops (f_of_int ops 2) (f_arctan ops (f_exp ops y)))
                              (f_div ops (f_pi ops) (f_of_int ops 2)))"

definition clamp :: "int \<Rightarrow> int \<Rightarrow> int \<Rightarrow> int" where
  "clamp v lo hi = (if v < lo then lo else if hi < v then hi else v)"

definition spec_src_row :: "'f float_ops \<Rightarrow> 'f \<Rightarrow> 'f \<Rightarrow> 'f \<Rightarrow> 'f \<Rightarrow> nat \<Rightarrow> nat \<Rightarrow> int" where
  "spec_src_row ops lat_min lat_max merc_max merc_min H i =
     (let frac = f_div ops (f_of_int ops (int i)) (f_of_int ops (int H - 1));
          merc_i = f_sub ops merc_max (f_mul ops frac (f_sub ops merc_max merc_min));
          lat_i = inverseMercatorY ops merc_i;
          src_row = f_round ops
                      (f_mul ops (f_div ops (f_sub ops lat_max lat_i) (f_sub ops lat_max lat_min))
                                 (f_of_int ops (int H)))
      in clamp (f_to_int32 ops src_row) 0 (int H - 1))"

section \<open>Exact arithmetic\<close>

text \<open>
  One choice of the operations, used to evaluate the model at concrete inputs: every
  operation is the exact real one. A finite double is a real number, \<open>None\<close> is \<open>nan\<close> or
  an infinity. A division by zero is \<open>None\<close>, and \<open>None\<close> goes through every operation
  (no finite latitude makes \<open>math.tan\<close> or \<open>math.log\<close> see one). \<open>np.round\<close> rounds half to
  even. \<open>astype(np.int32)\<close> truncates towards zero; on a value that does not fit, and on
  \<open>None\<close>, it yields \<open>-2^31\<close>, as numpy does on x86-64.

  Where the exact tangent has no value, at the odd multiples of \<open>pi/2\<close>, the doubles
  still return one (the double nearest to \<open>pi/2\<close> is not \<open>pi/2\<close>): that value is the
  parameter \<open>pole\<close>.
\<close>

definition lift2 :: "(real \<Rightarrow> real \<Rightarrow> real) \<Rightarrow> real option \<Rightarrow> real option \<Rightarrow> real option" where
  "lift2 f a b =
     (case a of None \<Rightarrow> None
      | Some x \<Rightarrow> (case b of None \<Rightarrow> None | Some y \<Rightarrow> Some (f x y)))"

definition round_half_even :: "real \<Rightarrow> int" where
  "round_half_even x =
     (let f = \<lfloor>x\<rfloor>; d = x - of_int f
      in if d < 1 / 2 then f else if 1 / 2 < d then f + 1 else if even f then f else f + 1)"

definition trunc :: "real \<Rightarrow> int" where
  "trunc x = (if 0 \<le> x then \<lfloor>x\<rfloor> else \<lceil>x\<rceil>)"

definition astype_int32 :: "real option \<Rightarrow> int" where
  "astype_int32 a =
     (case a of None \<Rightarrow> - (2 ^ 31)
      | Some x \<Rightarrow> (let t = trunc x in if - (2 ^ 31) \<le> t \<and> t < 2 ^ 31 then t else - (2 ^ 31)))"

definition exact_tan :: "(real \<Rightarrow> real option) \<Rightarrow> real option \<Rightarrow> error + real option" where
  "exact_tan pole a =
     (case a of None \<Rightarrow> Inr None
      | Some x \<Rightarrow> Inr (if cos x = 0 then pole x else Some (tan x)))"

definition exact_log :: "real option \<Rightarrow> error + real option" where
  "exact_log a =
     (case a of None \<Rightarrow> Inr None
      | Some x \<Rightarrow> if x \<le> 0 then Inl MathDomainError else Inr (Some (ln x)))"

definition exact_ops :: "(real \<Rightarrow> real option) \<Rightarrow> (real option) float_ops" where
  "exact_ops pole =
     \<lparr> f_of_int = (\<lambda>i. Some (of_int i)),
       f_pi = Some pi,
       f_add = lift2 (\<lambda>x y. x + y),
       f_sub = lift2 (\<lambda>x y. x - y),
       f_mul = lift2 (\<lambda>x y. x * y),
       f_div = (\<lambda>a b. if b = Some 0 then None else lift2 (\<lambda>x y. x / y) a b),
       f_radians = map_option (\<lambda>x. x * (pi / 180)),
       f_tan = exact_tan pole,
       f_log = exact_log,
       f_exp = map_option exp,
       f_arctan = map_option arctan,
       f_degrees = map_option (\<lambda>x. x * (180 / pi)),
       f_round = map_option (\<lambda>x. of_int (round_half_even x)),
       f_to_int32 = astype_int32 \<rparr>"

text \<open>The exact tangent is infinite at its poles.\<close>

definition exact :: "(real option) float_ops" where
  "exact = exact_ops (\<lambda>x. None)"

text \<open>
  The real functions that the exact operations compute: the two projectors, and latitude
  and row position of output row \<open>i\<close> from the two Mercator extremes.
\<close>

definition mercatorY :: "real \<Rightarrow> real" where
  "mercatorY L = ln (tan (pi / 4 + L * (pi / 180) / 2))"

definition inverse_real :: "real \<Rightarrow> real" where
  "inverse_real y = (2 * arctan (exp y) - pi / 2) * (180 / pi)"

definition exact_lat :: "real \<Rightarrow> real \<Rightarrow> nat \<Rightarrow> nat \<Rightarrow> real" where
  "exact_lat mx mn H i = inverse_real (mx - real i / (real H - 1) * (mx - mn))"

definition exact_pos :: "real \<Rightarrow> real \<Rightarrow> real \<Rightarrow> real \<Rightarrow> nat \<Rightarrow> nat \<Rightarrow> real" where
  "exact_pos lat_min lat_max mx mn H i =
     (lat_max - exact_lat mx mn H i) / (lat_max - lat_min) * real H"

section \<open>The calls of \<open>_merc_y\<close> and the row-index map, for any double arithmetic\<close>

lemma merc_extremes_returns:
  assumes "merc_y ops lat_max = Inr merc_max" "merc_y ops lat_min = Inr merc_min"
  shows "merc_extremes ops lat_min lat_max calls
           = (Inr (merc_max, merc_min), calls @ [lat_max, lat_min])"
  using assms by (simp add: merc_extremes_def call_merc_y_def)

lemma merc_extremes_raises_at_max:
  assumes "merc_y ops lat_max = Inl e"
  shows "merc_extremes ops lat_min lat_max calls = (Inl e, calls @ [lat_max])"
  using assms by (simp add: merc_extremes_def call_merc_y_def)

lemma merc_extremes_raises_at_min:
  assumes "merc_y ops lat_max = Inr merc_max" "merc_y ops lat_min = Inl e"
  shows "merc_extremes ops lat_min lat_max calls = (Inl e, calls @ [lat_max, lat_min])"
  using assms by (simp add: merc_extremes_def call_merc_y_def)

lemma row_index_map_returns:
  assumes "merc_y ops lat_max = Inr merc_max" "merc_y ops lat_min = Inr merc_min"
  shows "row_index_map ops lat_min lat_max H calls
           = (Inr (y_src ops lat_min lat_max H
                     (lats ops (merc_vals ops merc_max merc_min (fraction ops H)))),
              calls @ [lat_max, lat_min])"
  by (simp add: row_index_map_def merc_extremes_returns [OF assms])

lemma row_index_map_raises_at_max:
  assumes "merc_y ops lat_max = Inl e"
  shows "row_index_map ops lat_min lat_max H calls = (Inl e, calls @ [lat_max])"
  by (simp add: row_index_map_def merc_extremes_raises_at_max [OF assms])

lemma row_index_map_raises_at_min:
  assumes "merc_y ops lat_max = Inr merc_max" "merc_y ops lat_min = Inl e"
  shows "row_index_map ops lat_min lat_max H calls = (Inl e, calls @ [lat_max, lat_min])"
  by (simp add: row_index_map_def merc_extremes_raises_at_min [OF assms])

lemma y_src_length:
  "length (y_src ops lat_min lat_max H (lats ops (merc_vals ops mx mn (fraction ops H)))) = H"
  by (simp add: y_src_def lats_def merc_vals_def fraction_def)

lemma y_src_in_range:
  "\<forall>k \<in> set (y_src ops lat_min lat_max H (lats ops (merc_vals ops mx mn (fraction ops H)))).
     0 \<le> k \<and> k < int H"
  by (auto simp add: y_src_def lats_def merc_vals_def fraction_def np_clip_def)

lemma np_clip_clamp:
  assumes "lo \<le> hi"
  shows "np_clip v lo hi = clamp v lo hi"
  using assms by (auto simp add: np_clip_def clamp_def)



lemma y_src_nth:
  assumes "1 \<le> H" "i < H"
  shows "y_src ops lat_min lat_max H (lats ops (merc_vals ops mx mn (fraction ops H))) ! i
         = spec_src_row ops lat_min lat_max mx mn H i"
proof -
  have "(0::int) \<le> int H - 1" using assms(1) by simp
  then show ?thesis
    using assms(2)
    by (simp add: y_src_def lats_def merc_vals_def fraction_def spec_src_row_def Let_def
        inv_merc_y_def inverseMercatorY_def np_clip_clamp)
qed

lemma spec_src_row_unfolded:
  "spec_src_row ops lat_min lat_max merc_max merc_min H i =
     clamp (f_to_int32 ops (f_round ops
              (f_mul ops
                (f_div ops
                  (f_sub ops lat_max
                    (inverseMercatorY ops
                      (f_sub ops merc_max
                        (f_mul ops (f_div ops (f_of_int ops (int i)) (f_of_int ops (int H - 1)))
                                   (f_sub ops merc_max merc_min)))))
                  (f_sub ops lat_max lat_min))
                (f_of_int ops (int H)))))
           0 (int H - 1)"
  by (simp only: spec_src_row_def Let_def)

text \<open>
  C1, as amended. Whatever the double operations compute: for every extent and every height
  \<open>H \<ge> 2\<close> for which both calls of \<open>_merc_y\<close> return, \<open>reproject\<close> computes a row-index map
  of length \<open>H\<close>; its entry at each output row \<open>i\<close> is the specification's formula, evaluated
  with the same operations on the values \<open>merc_max\<close> and \<open>merc_min\<close> that \<open>_merc_y\<close> returned
  (the cast to \<open>int32\<close> between rounding and clamp); every entry is an integer in
  \<open>[0, H-1]\<close>.
\<close>

theorem row_index_map_formula:
  assumes "merc_y ops lat_max = Inr merc_max" "merc_y ops lat_min = Inr merc_min" "2 \<le> H"
  shows "\<exists>m. fst (row_index_map ops lat_min lat_max H calls) = Inr m \<and> length m = H
           \<and> (\<forall>i < H.
                 m ! i = clamp (f_to_int32 ops (f_round ops
                           (f_mul ops
                             (f_div ops
                               (f_sub ops lat_max
                                 (inverseMercatorY ops
                                   (f_sub ops merc_max
                                     (f_mul ops
                                       (f_div ops (f_of_int ops (int i))
                                                  (f_of_int ops (int H - 1)))
                                       (f_sub ops merc_max merc_min)))))
                               (f_sub ops lat_max lat_min))
                             (f_of_int ops (int H)))))
                         0 (int H - 1)
                 \<and> 0 \<le> m ! i \<and> m ! i \<le> int H - 1)"
proof -
  let ?m = "y_src ops lat_min lat_max H
              (lats ops (merc_vals ops merc_max merc_min (fraction ops H)))"
  have H1: "1 \<le> H" using assms(3) by simp
  have "fst (row_index_map ops lat_min lat_max H calls) = Inr ?m"
    by (simp add: row_index_map_returns [OF assms(1,2)])
  moreover have "length ?m = H" by (rule y_src_length)
  moreover have "\<forall>i < H. ?m ! i = spec_src_row ops lat_min lat_max merc_max merc_min H i"
    by (simp add: y_src_nth [OF H1])
  moreover have "\<forall>i < H. 0 \<le> ?m ! i \<and> ?m ! i \<le> int H - 1"
  proof (intro allI impI)
    fix i assume "i < H"
    then have "?m ! i \<in> set ?m" by (simp add: y_src_length)
    then show "0 \<le> ?m ! i \<and> ?m ! i \<le> int H - 1"
      using y_src_in_range [of ops lat_min lat_max H merc_max merc_min] by fastforce
  qed
  ultimately show ?thesis
    unfolding spec_src_row_unfolded [symmetric] by blast
qed

section \<open>The resampling step\<close>

lemma take_rows_in_range:
  assumes "\<forall>k \<in> set ys. 0 \<le> k \<and> k < int (length arr)"
  shows "take_rows arr ys = Inr (map (\<lambda>k. arr ! nat k) ys)"
  using assms by (induction ys) simp_all

lemma selected_rows_subset:
  assumes "\<forall>k \<in> set ys. 0 \<le> k \<and> k < int (length arr)"
  shows "set (map (\<lambda>k. arr ! nat k) ys) \<subseteq> set arr"
proof
  fix r assume "r \<in> set (map (\<lambda>k. arr ! nat k) ys)"
  then obtain k where k: "k \<in> set ys" "r = arr ! nat k" by auto
  then have "nat k < length arr" using assms by auto
  then show "r \<in> set arr" using k(2) by simp
qed

lemma resample_in_range:
  assumes "\<forall>k \<in> set ys. 0 \<le> k \<and> k < int (length (pixels img))"
    and "mode img = ''P'' \<or> mode img = ''RGB'' \<or> mode img = ''RGBA''"
  shows "resample other img ys =
           Inr \<lparr> saved_mode = mode img,
                 saved_palette =
                   (if mode img = ''P'' \<and> truthy (getpalette img) then getpalette img else None),
                 saved_transparency = info_transparency img,
                 saved_pixels = map (\<lambda>k. pixels img ! nat k) ys \<rparr>"
  using take_rows_in_range [OF assms(1)] assms(2)
  by (simp add: resample_def Let_def fromarray_def)




section \<open>\<open>reproject\<close> as a whole\<close>

lemma reproject_returns:
  assumes "merc_y ops lat_max = Inr merc_max" "merc_y ops lat_min = Inr merc_min"
  shows "reproject ops other img lat_min lat_max calls
           = (resample other img
                (y_src ops lat_min lat_max (length (pixels img))
                  (lats ops (merc_vals ops merc_max merc_min (fraction ops (length (pixels img)))))),
              calls @ [lat_max, lat_min])"
  by (simp add: reproject_def row_index_map_returns [OF assms])

lemma reproject_raises_at_max:
  assumes "merc_y ops lat_max = Inl e"
  shows "reproject ops other img lat_min lat_max calls = (Inl e, calls @ [lat_max])"
  by (simp add: reproject_def row_index_map_raises_at_max [OF assms])

lemma reproject_raises_at_min:
  assumes "merc_y ops lat_max = Inr merc_max" "merc_y ops lat_min = Inl e"
  shows "reproject ops other img lat_min lat_max calls = (Inl e, calls @ [lat_max, lat_min])"
  by (simp add: reproject_def row_index_map_raises_at_min [OF assms])


lemma reproject_returns_image:
  assumes "merc_y ops lat_max = Inr merc_max" "merc_y ops lat_min = Inr merc_min"
    and "mode img = ''P'' \<or> mode img = ''RGB'' \<or> mode img = ''RGBA''"
  shows "fst (reproject ops other img lat_min lat_max calls) =
           Inr \<lparr> saved_mode = mode img,
                 saved_palette =
                   (if mode img = ''P'' \<and> truthy (getpalette img) then getpalette img else None),
                 saved_transparency = info_transparency img,
                 saved_pixels =
                   map (\<lambda>k. pixels img ! nat k)
                     (y_src ops lat_min lat_max (length (pixels img))
                       (lats ops (merc_vals ops merc_max merc_min
                                   (fraction ops (length (pixels img)))))) \<rparr>"
  unfolding reproject_returns [OF assms(1,2)] fst_conv
  by (rule resample_in_range [OF y_src_in_range assms(3)])


text \<open>
  C2, as amended. \<open>reproject\<close> does not validate the extent. Whatever the extent (ordered,
  inverted, equal or out of range) and whatever the double operations compute: if one of
  the two calls of \<open>_merc_y\<close> raises, \<open>reproject\<close> fails with that error, before any row is
  computed; if both return and the mode is \<open>P\<close>, \<open>RGB\<close> or \<open>RGBA\<close>, it returns an image with
  as many rows as the source, each of them a source row.
\<close>

theorem reproject_extent_handling:
  "(merc_y ops lat_max = Inl e \<longrightarrow>
      fst (reproject ops other img lat_min lat_max calls) = Inl e)
   \<and> (merc_y ops lat_max = Inr merc_max \<and> merc_y ops lat_min = Inl e \<longrightarrow>
        fst (reproject ops other img lat_min lat_max calls) = Inl e)
   \<and> (merc_y ops lat_max = Inr merc_max \<and> merc_y ops lat_min = Inr merc_min
        \<and> (mode img = ''P'' \<or> mode img = ''RGB'' \<or> mode img = ''RGBA'') \<longrightarrow>
        (\<exists>out. fst (reproject ops other img lat_min lat_max calls) = Inr out
           \<and> length (saved_pixels out) = length (pixels img)
           \<and> set (saved_pixels out) \<subseteq> set (pixels img)))"
proof (intro conjI impI)
  assume "merc_y ops lat_max = Inl e"
  then show "fst (reproject ops other img lat_min lat_max calls) = Inl e"
    by (simp add: reproject_raises_at_max)
next
  assume "merc_y ops lat_max = Inr merc_max \<and> merc_y ops lat_min = Inl e"
  then show "fst (reproject ops other img lat_min lat_max calls) = Inl e"
    by (simp add: reproject_raises_at_min)
next
  assume a: "merc_y ops lat_max = Inr merc_max \<and> merc_y ops lat_min = Inr merc_min
               \<and> (mode img = ''P'' \<or> mode img = ''RGB'' \<or> mode img = ''RGBA'')"
  then have mx: "merc_y ops lat_max = Inr merc_max" and mn: "merc_y ops lat_min = Inr merc_min"
    and md: "mode img = ''P'' \<or> mode img = ''RGB'' \<or> mode img = ''RGBA''"
    by simp_all
  show "\<exists>out. fst (reproject ops other img lat_min lat_max calls) = Inr out
           \<and> length (saved_pixels out) = length (pixels img)
           \<and> set (saved_pixels out) \<subseteq> set (pixels img)"
    unfolding reproject_returns_image [OF mx mn md]
    using selected_rows_subset [OF y_src_in_range] by (simp add: y_src_length)
qed

lemma y_src_single_row:
  "y_src ops lat_min lat_max 1 (lats ops (merc_vals ops mx mn (fraction ops 1))) = [0]"
  by (simp add: y_src_def lats_def merc_vals_def fraction_def np_clip_def)

text \<open>
  C3, as amended. \<open>reproject\<close> does not check the height. For a source of height 1 in mode
  \<open>P\<close>, \<open>RGB\<close> or \<open>RGBA\<close> and an extent at which both calls of \<open>_merc_y\<close> return, whatever
  the double operations make of \<open>0 / 0\<close>: the clip to \<open>[0, 0]\<close> yields index 0, the
  row-index map is \<open>[0]\<close> and the output's pixel array is the source's.
\<close>

theorem reproject_accepts_single_row:
  assumes "merc_y ops lat_max = Inr merc_max" "merc_y ops lat_min = Inr merc_min"
    and "length (pixels img) = 1"
    and "mode img = ''P'' \<or> mode img = ''RGB'' \<or> mode img = ''RGBA''"
  shows "fst (row_index_map ops lat_min lat_max (length (pixels img)) calls) = Inr [0]
         \<and> (\<exists>out. fst (reproject ops other img lat_min lat_max calls) = Inr out
              \<and> saved_pixels out = pixels img)"
proof -
  obtain r where r: "pixels img = [r]"
    using assms(3) by (cases "pixels img") simp_all
  have m: "fst (row_index_map ops lat_min lat_max (length (pixels img)) calls) = Inr [0]"
    unfolding assms(3) row_index_map_returns [OF assms(1,2)] fst_conv y_src_single_row ..
  have "fst (reproject ops other img lat_min lat_max calls)
          = Inr \<lparr> saved_mode = mode img,
                  saved_palette =
                    (if mode img = ''P'' \<and> truthy (getpalette img) then getpalette img else None),
                  saved_transparency = info_transparency img,
                  saved_pixels = map (\<lambda>k. pixels img ! nat k) [0] \<rparr>"
    using reproject_returns_image [OF assms(1,2,4), of other calls]
    unfolding assms(3) y_src_single_row .
  then show ?thesis using m r by simp
qed


section \<open>Exact arithmetic: the operations\<close>

lemma exact_fields:
  "f_of_int (exact_ops pole) i = Some (of_int i)"
  "f_pi (exact_ops pole) = Some pi"
  "f_add (exact_ops pole) (Some x) (Some y) = Some (x + y)"
  "f_sub (exact_ops pole) (Some x) (Some y) = Some (x - y)"
  "f_mul (exact_ops pole) (Some x) (Some y) = Some (x * y)"
  "y \<noteq> 0 \<Longrightarrow> f_div (exact_ops pole) (Some x) (Some y) = Some (x / y)"
  "f_radians (exact_ops pole) (Some x) = Some (x * (pi / 180))"
  "f_tan (exact_ops pole) (Some x) = Inr (if cos x = 0 then pole x else Some (tan x))"
  "f_log (exact_ops pole) (Some x) = (if x \<le> 0 then Inl MathDomainError else Inr (Some (ln x)))"
  "f_exp (exact_ops pole) (Some x) = Some (exp x)"
  "f_arctan (exact_ops pole) (Some x) = Some (arctan x)"
  "f_degrees (exact_ops pole) (Some x) = Some (x * (180 / pi))"
  "f_round (exact_ops pole) (Some x) = Some (of_int (round_half_even x))"
  "f_to_int32 (exact_ops pole) = astype_int32"
  by (simp_all add: exact_ops_def lift2_def exact_tan_def exact_log_def)

lemma merc_y_exact:
  "merc_y (exact_ops pole) (Some L) =
     (let a = pi / 4 + L * (pi / 180) / 2
      in if cos a = 0
         then (case pole a of None \<Rightarrow> Inr None
               | Some t \<Rightarrow> if t \<le> 0 then Inl MathDomainError else Inr (Some (ln t)))
         else if tan a \<le> 0 then Inl MathDomainError else Inr (Some (ln (tan a))))"
proof -
  let ?ops = "exact_ops pole"
  let ?a = "pi / 4 + L * (pi / 180) / 2"
  have four: "f_div ?ops (f_pi ?ops) (f_of_int ?ops 4) = Some (pi / 4)"
    by (simp add: exact_fields)
  have half: "f_div ?ops (f_radians ?ops (Some L)) (f_of_int ?ops 2) = Some (L * (pi / 180) / 2)"
    by (simp add: exact_fields)
  have arg: "f_add ?ops (f_div ?ops (f_pi ?ops) (f_of_int ?ops 4))
               (f_div ?ops (f_radians ?ops (Some L)) (f_of_int ?ops 2)) = Some ?a"
    unfolding four half by (simp only: exact_fields)
  have none: "f_log ?ops None = Inr None"
    by (simp add: exact_ops_def exact_log_def)
  show ?thesis
    unfolding merc_y_def arg exact_fields(8) Let_def
    by (cases "pole ?a") (simp_all add: none exact_fields(9))
qed

lemma half_angle_range:
  assumes "-90 < L" "L < 90"
  shows "0 < pi / 4 + L * (pi / 180) / 2" "pi / 4 + L * (pi / 180) / 2 < pi / 2"
proof -
  have "(-90) * (pi / 180) < L * (pi / 180)"
    using assms(1) pi_gt_zero by (intro mult_strict_right_mono) simp_all
  then have lo: "- (pi / 2) < L * (pi / 180)" by simp
  have "L * (pi / 180) < 90 * (pi / 180)"
    using assms(2) pi_gt_zero by (intro mult_strict_right_mono) simp_all
  then have hi: "L * (pi / 180) < pi / 2" by simp
  show "0 < pi / 4 + L * (pi / 180) / 2" using lo by linarith
  show "pi / 4 + L * (pi / 180) / 2 < pi / 2" using hi by linarith
qed

lemma tan_half_angle_pos:
  assumes "-90 < L" "L < 90"
  shows "0 < tan (pi / 4 + L * (pi / 180) / 2)"
  using half_angle_range [OF assms] by (rule tan_gt_zero)

lemma cos_half_angle_pos:
  assumes "-90 < L" "L < 90"
  shows "0 < cos (pi / 4 + L * (pi / 180) / 2)"
  using half_angle_range [OF assms] by (rule cos_gt_zero)

lemma merc_y_exact_inside:
  assumes "-90 < L" "L < 90"
  shows "merc_y (exact_ops pole) (Some L) = Inr (Some (mercatorY L))"
  using tan_half_angle_pos [OF assms] cos_half_angle_pos [OF assms]
  by (simp add: merc_y_exact mercatorY_def Let_def)

lemma merc_y_exact_south_pole:
  "merc_y (exact_ops pole) (Some (-90)) = Inl MathDomainError"
  by (simp add: merc_y_exact Let_def)


text \<open>Beyond the north pole: between 90 and 270 the tangent is negative.\<close>

lemma merc_y_exact_beyond_north_pole:
  assumes "90 < L" "L < 270"
  shows "merc_y (exact_ops pole) (Some L) = Inl MathDomainError"
proof -
  let ?a = "pi / 4 + L * (pi / 180) / 2"
  let ?b = "pi / 4 + (L - 360) * (pi / 180) / 2"
  have ab: "?a = ?b + pi" by (simp add: field_simps)
  have "(-270) * (pi / 180) < (L - 360) * (pi / 180)"
    using assms(1) pi_gt_zero by (intro mult_strict_right_mono) simp_all
  then have lo: "- (3 * pi / 2) < (L - 360) * (pi / 180)" by simp
  have "(L - 360) * (pi / 180) < (-90) * (pi / 180)"
    using assms(2) pi_gt_zero by (intro mult_strict_right_mono) simp_all
  then have hi: "(L - 360) * (pi / 180) < - (pi / 2)" by simp
  have b: "- (pi / 2) < ?b" "?b < 0" using lo hi by linarith+
  have "0 < cos ?b" using b pi_gt_zero by (intro cos_gt_zero_pi) linarith+
  moreover have "tan ?b < 0" using b by (intro tan_less_zero) simp_all
  moreover have "cos ?a = - cos ?b" unfolding ab by (rule cos_periodic_pi)
  moreover have "tan ?a = tan ?b" unfolding ab by (rule tan_periodic_pi)
  ultimately show ?thesis by (simp add: merc_y_exact Let_def)
qed

text \<open>Further on, between 270 and 450, it is positive again.\<close>

lemma merc_y_exact_far_beyond:
  assumes "270 < L" "L < 450"
  shows "merc_y (exact_ops pole) (Some L) = Inr (Some (mercatorY (L - 360)))"
proof -
  let ?a = "pi / 4 + L * (pi / 180) / 2"
  let ?b = "pi / 4 + (L - 360) * (pi / 180) / 2"
  have ab: "?a = ?b + pi" by (simp add: field_simps)
  have r: "-90 < L - 360" "L - 360 < 90" using assms by simp_all
  have "cos ?a = - cos ?b" unfolding ab by (rule cos_periodic_pi)
  moreover have "tan ?a = tan ?b" unfolding ab by (rule tan_periodic_pi)
  ultimately show ?thesis
    using tan_half_angle_pos [OF r] cos_half_angle_pos [OF r]
    by (simp add: merc_y_exact Let_def mercatorY_def)
qed

section \<open>Exact arithmetic: rounding and cast\<close>



lemma round_half_even_of_int: "round_half_even (of_int n) = n"
  by (simp add: round_half_even_def)


lemma trunc_of_int: "trunc (of_int n) = n"
  by (simp add: trunc_def)

lemma astype_int32_fits:
  assumes "- (2 ^ 31) \<le> n" "n < 2 ^ 31"
  shows "astype_int32 (Some (of_int n)) = n"
  using assms by (simp add: astype_int32_def trunc_of_int)

section \<open>Exact arithmetic: the two projectors\<close>

lemma inverse_real_mercatorY:
  assumes "-90 < L" "L < 90"
  shows "inverse_real (mercatorY L) = L"
proof -
  let ?a = "pi / 4 + L * (pi / 180) / 2"
  have r: "0 < ?a" "?a < pi / 2" using half_angle_range [OF assms] .
  have "exp (mercatorY L) = tan ?a"
    using tan_half_angle_pos [OF assms] by (simp add: mercatorY_def)
  moreover have "arctan (tan ?a) = ?a"
    using r by (intro arctan_tan) simp_all
  ultimately have "inverse_real (mercatorY L) = (L * (pi / 180)) * (180 / pi)"
    by (simp add: inverse_real_def)
  then show ?thesis by simp
qed




section \<open>Exact arithmetic: the rows\<close>

lemma exact_entry:
  assumes "2 \<le> H" "lat_min \<noteq> lat_max" "i < H"
  shows "y_src (exact_ops pole) (Some lat_min) (Some lat_max) H
           (lats (exact_ops pole)
             (merc_vals (exact_ops pole) (Some mx) (Some mn) (fraction (exact_ops pole) H))) ! i
         = np_clip (astype_int32
                     (Some (of_int (round_half_even (exact_pos lat_min lat_max mx mn H i)))))
                   0 (int H - 1)"
proof -
  let ?ops = "exact_ops pole"
  have h: "real_of_int (int H - 1) = real H - 1" by simp
  have nz: "real H - 1 \<noteq> 0" using assms(1) by simp
  have fr: "f_div ?ops (f_of_int ?ops (int i)) (f_of_int ?ops (int H - 1))
            = Some (real i / (real H - 1))"
    using nz by (simp add: exact_fields)
  have mv: "f_sub ?ops (Some mx) (f_mul ?ops (Some (real i / (real H - 1)))
                                    (f_sub ?ops (Some mx) (Some mn)))
            = Some (mx - real i / (real H - 1) * (mx - mn))"
    by (simp add: exact_fields)
  have lt: "inv_merc_y ?ops (Some (mx - real i / (real H - 1) * (mx - mn)))
            = Some (exact_lat mx mn H i)"
    by (simp add: inv_merc_y_def exact_fields exact_lat_def inverse_real_def)
  have dz: "lat_max - lat_min \<noteq> 0" using assms(2) by simp
  have rp: "f_mul ?ops (f_div ?ops (f_sub ?ops (Some lat_max) (Some (exact_lat mx mn H i)))
                         (f_sub ?ops (Some lat_max) (Some lat_min)))
              (f_of_int ?ops (int H))
            = Some (exact_pos lat_min lat_max mx mn H i)"
    using dz by (simp add: exact_fields exact_pos_def)
  have "y_src ?ops (Some lat_min) (Some lat_max) H
          (lats ?ops (merc_vals ?ops (Some mx) (Some mn) (fraction ?ops H))) ! i
        = np_clip (f_to_int32 ?ops (f_round ?ops
            (f_mul ?ops (f_div ?ops (f_sub ?ops (Some lat_max)
               (inv_merc_y ?ops
                 (f_sub ?ops (Some mx)
                   (f_mul ?ops (f_div ?ops (f_of_int ?ops (int i)) (f_of_int ?ops (int H - 1)))
                           (f_sub ?ops (Some mx) (Some mn))))))
               (f_sub ?ops (Some lat_max) (Some lat_min))) (f_of_int ?ops (int H)))))
            0 (int H - 1)"
    using assms(3) by (simp add: y_src_def lats_def merc_vals_def fraction_def)
  also have "\<dots> = np_clip (f_to_int32 ?ops
                        (f_round ?ops (Some (exact_pos lat_min lat_max mx mn H i))))
                     0 (int H - 1)"
    by (simp only: fr mv lt rp)
  finally show ?thesis by (simp add: exact_fields)
qed

lemma exact_lat_first: "exact_lat mx mn H 0 = inverse_real mx"
  by (simp add: exact_lat_def)

lemma exact_lat_last:
  assumes "2 \<le> H"
  shows "exact_lat mx mn H (H - 1) = inverse_real mn"
proof -
  have "real (H - 1) = real H - 1" using assms by (simp add: of_nat_diff)
  moreover have "real H - 1 \<noteq> 0" using assms by simp
  ultimately show ?thesis by (simp add: exact_lat_def)
qed






section \<open>Claims settled at concrete inputs\<close>

lemma row_index_map_exact_south_pole:
  assumes "-90 < lat_max" "lat_max < 90"
  shows "fst (row_index_map (exact_ops pole) (Some (-90)) (Some lat_max) H calls)
           = Inl MathDomainError"
  using row_index_map_raises_at_min
    [OF merc_y_exact_inside [OF assms] merc_y_exact_south_pole, of pole H calls]
  by simp

text \<open>The extent \<open>[-65, 75]\<close> and three rows, in exact arithmetic.\<close>

theorem row_index_map_formula_witness:
  "\<exists>m. fst (row_index_map exact (Some (-65)) (Some 75) 3 []) = Inr m \<and> length m = 3
      \<and> m ! 1 = clamp (f_to_int32 exact (f_round exact
                  (f_mul exact
                    (f_div exact
                      (f_sub exact (Some 75)
                        (inverseMercatorY exact
                          (f_sub exact (Some (mercatorY 75))
                            (f_mul exact
                              (f_div exact (f_of_int exact 1) (f_of_int exact 2))
                              (f_sub exact (Some (mercatorY 75)) (Some (mercatorY (-65))))))))
                      (f_sub exact (Some 75) (Some (-65))))
                    (f_of_int exact 3))))
                0 2
      \<and> 0 \<le> m ! 1 \<and> m ! 1 \<le> 2"
proof -
  have mx: "merc_y exact (Some 75) = Inr (Some (mercatorY 75))"
    unfolding exact_def by (rule merc_y_exact_inside) simp_all
  have mn: "merc_y exact (Some (-65)) = Inr (Some (mercatorY (-65)))"
    unfolding exact_def by (rule merc_y_exact_inside) simp_all
  have "(2::nat) \<le> 3" by simp
  from row_index_map_formula [OF mx mn this, of "[]"]
  obtain m where m: "fst (row_index_map exact (Some (-65)) (Some 75) 3 []) = Inr m" "length m = 3"
    and e: "\<forall>i < 3.
              m ! i = clamp (f_to_int32 exact (f_round exact
                  (f_mul exact
                    (f_div exact
                      (f_sub exact (Some 75)
                        (inverseMercatorY exact
                          (f_sub exact (Some (mercatorY 75))
                            (f_mul exact
                              (f_div exact (f_of_int exact (int i)) (f_of_int exact (int 3 - 1)))
                              (f_sub exact (Some (mercatorY 75)) (Some (mercatorY (-65))))))))
                      (f_sub exact (Some 75) (Some (-65))))
                    (f_of_int exact (int 3)))))
                0 (int 3 - 1)
              \<and> 0 \<le> m ! i \<and> m ! i \<le> int 3 - 1"
    by blast
  have "(1::nat) < 3" by simp
  with e have "m ! 1 = clamp (f_to_int32 exact (f_round exact
                  (f_mul exact
                    (f_div exact
                      (f_sub exact (Some 75)
                        (inverseMercatorY exact
                          (f_sub exact (Some (mercatorY 75))
                            (f_mul exact
                              (f_div exact (f_of_int exact (int 1)) (f_of_int exact (int 3 - 1)))
                              (f_sub exact (Some (mercatorY 75)) (Some (mercatorY (-65))))))))
                      (f_sub exact (Some 75) (Some (-65))))
                    (f_of_int exact (int 3)))))
                0 (int 3 - 1)
              \<and> 0 \<le> m ! 1 \<and> m ! 1 \<le> int 3 - 1"
    by blast
  then show ?thesis using m by simp
qed

text \<open>
  C1 as stated fails at the south pole: the extent \<open>[-90, 0]\<close> is valid by the
  specification's invariant, and for it the second call of \<open>_merc_y\<close> takes the logarithm of
  \<open>tan 0 = 0\<close> and raises, so that \<open>reproject\<close> produces no row-index map at all.
\<close>

theorem row_index_map_fails_at_south_pole:
  "fst (row_index_map exact (Some (-90)) (Some 0) 2 []) = Inl MathDomainError"
  unfolding exact_def by (rule row_index_map_exact_south_pole) simp_all






text \<open>
  Four extents in exact arithmetic: \<open>lat_max = 100\<close>, where the first call raises;
  \<open>lat_min = -90\<close>, where the second does; the inverted \<open>lat_min = 80\<close>, \<open>lat_max = 70\<close> and
  the out-of-range \<open>lat_max = 280\<close>, which are both accepted.
\<close>

theorem reproject_extent_handling_witness:
  "fst (reproject exact (\<lambda>m a. Inl FromarrayError)
          \<lparr> mode = ''RGB'', getpalette = None, info_transparency = None,
            pixels = [[[1, 2, 3]], [[4, 5, 6]], [[7, 8, 9 :: nat]]] \<rparr>
          (Some 0) (Some 100) []) = Inl MathDomainError
   \<and> fst (reproject exact (\<lambda>m a. Inl FromarrayError)
          \<lparr> mode = ''RGB'', getpalette = None, info_transparency = None,
            pixels = [[[1, 2, 3]], [[4, 5, 6]], [[7, 8, 9 :: nat]]] \<rparr>
          (Some (-90)) (Some 0) []) = Inl MathDomainError
   \<and> (\<exists>out. fst (reproject exact (\<lambda>m a. Inl FromarrayError)
          \<lparr> mode = ''RGB'', getpalette = None, info_transparency = None,
            pixels = [[[1, 2, 3]], [[4, 5, 6]], [[7, 8, 9 :: nat]]] \<rparr>
          (Some 80) (Some 70) []) = Inr out
        \<and> length (saved_pixels out) = 3)
   \<and> (\<exists>out. fst (reproject exact (\<lambda>m a. Inl FromarrayError)
          \<lparr> mode = ''RGB'', getpalette = None, info_transparency = None,
            pixels = [[[1, 2, 3]], [[4, 5, 6]], [[7, 8, 9 :: nat]]] \<rparr>
          (Some 0) (Some 280) []) = Inr out
        \<and> length (saved_pixels out) = 3)"
proof -
  let ?img = "\<lparr> mode = ''RGB'', getpalette = None, info_transparency = None,
                 pixels = [[[1, 2, 3]], [[4, 5, 6]], [[7, 8, 9 :: nat]]] \<rparr>"
  let ?other = "\<lambda>(m::string) (a::nat list list list). (Inl FromarrayError :: error + nat list list list)"
  have m100: "merc_y exact (Some 100) = Inl MathDomainError"
    unfolding exact_def by (rule merc_y_exact_beyond_north_pole) simp_all
  have m0: "merc_y exact (Some 0) = Inr (Some (mercatorY 0))"
    unfolding exact_def by (rule merc_y_exact_inside) simp_all
  have ms: "merc_y exact (Some (-90)) = Inl MathDomainError"
    unfolding exact_def by (rule merc_y_exact_south_pole)
  have m70: "merc_y exact (Some 70) = Inr (Some (mercatorY 70))"
    unfolding exact_def by (rule merc_y_exact_inside) simp_all
  have m80: "merc_y exact (Some 80) = Inr (Some (mercatorY 80))"
    unfolding exact_def by (rule merc_y_exact_inside) simp_all
  have m280: "merc_y exact (Some 280) = Inr (Some (mercatorY (280 - 360)))"
    unfolding exact_def by (rule merc_y_exact_far_beyond) simp_all
  have a: "fst (reproject exact ?other ?img (Some 0) (Some 100) []) = Inl MathDomainError"
    using reproject_extent_handling
      [of exact "Some 100" MathDomainError ?other ?img "Some 0" "[]"] m100
    by blast
  have b: "fst (reproject exact ?other ?img (Some (-90)) (Some 0) []) = Inl MathDomainError"
    using reproject_extent_handling
      [of exact "Some 0" MathDomainError ?other ?img "Some (-90)" "[]" "Some (mercatorY 0)"]
      m0 ms
    by blast
  have c: "\<exists>out. fst (reproject exact ?other ?img (Some 80) (Some 70) []) = Inr out
             \<and> length (saved_pixels out) = 3"
    using reproject_extent_handling
      [of exact "Some 70" _ ?other ?img "Some 80" "[]" "Some (mercatorY 70)"
          "Some (mercatorY 80)"]
      m70 m80
    by auto
  have d: "\<exists>out. fst (reproject exact ?other ?img (Some 0) (Some 280) []) = Inr out
             \<and> length (saved_pixels out) = 3"
    using reproject_extent_handling
      [of exact "Some 280" _ ?other ?img "Some 0" "[]" "Some (mercatorY (280 - 360))"
          "Some (mercatorY 0)"]
      m280 m0
    by auto
  show ?thesis using a b c d by blast
qed

lemma row_index_map_80_70:
  "fst (row_index_map exact (Some 80) (Some 70) 2 []) = Inr [0, 1]"
proof -
  let ?ys = "y_src exact (Some 80) (Some 70) 2
               (lats exact (merc_vals exact (Some (mercatorY 70)) (Some (mercatorY 80))
                             (fraction exact 2)))"
  have m70: "merc_y exact (Some 70) = Inr (Some (mercatorY 70))"
    unfolding exact_def by (rule merc_y_exact_inside) simp_all
  have m80: "merc_y exact (Some 80) = Inr (Some (mercatorY 80))"
    unfolding exact_def by (rule merc_y_exact_inside) simp_all
  have len: "length ?ys = 2" by (rule y_src_length)
  have i70: "inverse_real (mercatorY 70) = 70" by (rule inverse_real_mercatorY) simp_all
  have i80: "inverse_real (mercatorY 80) = 80" by (rule inverse_real_mercatorY) simp_all
  have p0: "exact_pos 80 70 (mercatorY 70) (mercatorY 80) 2 0 = 0"
    by (simp add: exact_pos_def exact_lat_first i70)
  have "exact_lat (mercatorY 70) (mercatorY 80) 2 (2 - 1) = inverse_real (mercatorY 80)"
    by (rule exact_lat_last) simp
  then have "exact_lat (mercatorY 70) (mercatorY 80) 2 1 = 80" using i80 by simp
  then have p1: "exact_pos 80 70 (mercatorY 70) (mercatorY 80) 2 1 = 2"
    by (simp add: exact_pos_def)
  have r0: "round_half_even 0 = 0" using round_half_even_of_int [of 0] by simp
  have r2: "round_half_even 2 = 2" using round_half_even_of_int [of 2] by simp
  have c0: "astype_int32 (Some (of_int 0)) = 0" by (rule astype_int32_fits) simp_all
  have c2: "astype_int32 (Some (of_int 2)) = 2" by (rule astype_int32_fits) simp_all
  have "?ys ! 0 = np_clip (astype_int32 (Some (of_int (round_half_even
                    (exact_pos 80 70 (mercatorY 70) (mercatorY 80) 2 0))))) 0 (int 2 - 1)"
    unfolding exact_def by (rule exact_entry) simp_all
  then have e0: "?ys ! 0 = 0" using p0 r0 c0 by (simp add: np_clip_def)
  have "?ys ! 1 = np_clip (astype_int32 (Some (of_int (round_half_even
                    (exact_pos 80 70 (mercatorY 70) (mercatorY 80) 2 1))))) 0 (int 2 - 1)"
    unfolding exact_def by (rule exact_entry) simp_all
  then have e1: "?ys ! 1 = 1" using p1 r2 c2 by (simp add: np_clip_def)
  have "?ys = [0, 1]"
  proof (rule nth_equalityI)
    show "length ?ys = length [0, 1 :: int]" using len by simp
  next
    fix i assume "i < length ?ys"
    then have "i = 0 \<or> i = 1" using len by auto
    then show "?ys ! i = [0, 1] ! i" using e0 e1 by auto
  qed
  then show ?thesis by (simp add: row_index_map_returns [OF m70 m80])
qed

text \<open>
  C2 as stated fails: for \<open>lat_min = 80\<close>, \<open>lat_max = 70\<close> and a two-row image the row-index
  map is \<open>[0, 1]\<close> and \<open>reproject\<close> returns the image, no error raised.
\<close>

theorem reproject_inverted_extent_not_rejected:
  "fst (reproject exact (\<lambda>m a. Inl FromarrayError)
          \<lparr> mode = ''P'', getpalette = Some [0, 0, 0, 255, 255, 255],
            info_transparency = Some (TIndex 0), pixels = [[0, 1, 1], [1, 0, 0 :: nat]] \<rparr>
          (Some 80) (Some 70) [])
   = Inr \<lparr> saved_mode = ''P'', saved_palette = Some [0, 0, 0, 255, 255, 255],
           saved_transparency = Some (TIndex 0), saved_pixels = [[0, 1, 1], [1, 0, 0]] \<rparr>"
proof -
  let ?img = "\<lparr> mode = ''P'', getpalette = Some [0, 0, 0, 255, 255, 255],
                 info_transparency = Some (TIndex 0),
                 pixels = [[0, 1, 1], [1, 0, 0 :: nat]] \<rparr>"
  let ?other = "\<lambda>(m::string) (a::nat list list). (Inl FromarrayError :: error + nat list list)"
  have "length (pixels ?img) = 2" by simp
  then have "fst (row_index_map exact (Some 80) (Some 70) (length (pixels ?img)) []) = Inr [0, 1]"
    by (simp only: row_index_map_80_70)
  then have "fst (reproject exact ?other ?img (Some 80) (Some 70) []) = resample ?other ?img [0, 1]"
    by (auto simp add: reproject_def split: prod.splits sum.splits)
  then show ?thesis by (simp add: resample_def fromarray_def truthy_def Let_def)
qed

text \<open>A one-row \<open>RGB\<close> image and the extent \<open>[-48, 8]\<close>.\<close>

theorem reproject_accepts_single_row_witness:
  "fst (row_index_map exact (Some (-48)) (Some 8) 1 []) = Inr [0]
   \<and> (\<exists>out. fst (reproject exact (\<lambda>m a. Inl FromarrayError)
                   \<lparr> mode = ''RGB'', getpalette = None, info_transparency = None,
                     pixels = [[[9, 9, 9], [1, 2, 3 :: nat]]] \<rparr> (Some (-48)) (Some 8) [])
               = Inr out
          \<and> saved_pixels out = [[[9, 9, 9], [1, 2, 3]]])"
proof -
  have mx: "merc_y exact (Some 8) = Inr (Some (mercatorY 8))"
    unfolding exact_def by (rule merc_y_exact_inside) simp_all
  have mn: "merc_y exact (Some (-48)) = Inr (Some (mercatorY (-48)))"
    unfolding exact_def by (rule merc_y_exact_inside) simp_all
  show ?thesis
    using reproject_accepts_single_row
      [OF mx mn, of "\<lparr> mode = ''RGB'', getpalette = None, info_transparency = None,
                       pixels = [[[9, 9, 9], [1, 2, 3 :: nat]]] \<rparr>"
          "[]" "\<lambda>m a. Inl FromarrayError"]
    by simp
qed

text \<open>C3 as stated fails: a one-row image is reprojected, no error raised.\<close>

theorem reproject_single_row_not_rejected:
  "fst (reproject exact (\<lambda>m a. Inl FromarrayError)
          \<lparr> mode = ''P'', getpalette = Some [0, 0, 0, 255, 255, 255],
            info_transparency = None, pixels = [[1, 0, 1 :: nat]] \<rparr> (Some (-65)) (Some 75) [])
   = Inr \<lparr> saved_mode = ''P'', saved_palette = Some [0, 0, 0, 255, 255, 255],
           saved_transparency = None, saved_pixels = [[1, 0, 1]] \<rparr>"
proof -
  let ?img = "\<lparr> mode = ''P'', getpalette = Some [0, 0, 0, 255, 255, 255],
                 info_transparency = None, pixels = [[1, 0, 1 :: nat]] \<rparr>"
  have mx: "merc_y exact (Some 75) = Inr (Some (mercatorY 75))"
    unfolding exact_def by (rule merc_y_exact_inside) simp_all
  have mn: "merc_y exact (Some (-65)) = Inr (Some (mercatorY (-65)))"
    unfolding exact_def by (rule merc_y_exact_inside) simp_all
  have md: "mode ?img = ''P'' \<or> mode ?img = ''RGB'' \<or> mode ?img = ''RGBA''" by simp
  have one: "length (pixels ?img) = 1" by simp
  show ?thesis
    using reproject_returns_image [OF mx mn md, of "\<lambda>m a. Inl FromarrayError" "[]"]
    unfolding one y_src_single_row
    by (simp add: truthy_def)
qed

text \<open>
  C8. For a source in mode \<open>P\<close> with a palette and a transparency index, every output that
  \<open>reproject\<close> writes has mode \<open>P\<close>, the source's palette and the source's transparency
  index; its rows are rows of the source (still palette indices) and as many as the source
  has. An output is written whenever both calls of \<open>_merc_y\<close> return; in exact arithmetic
  they do for every extent strictly between the poles.
\<close>

theorem reproject_keeps_palette:
  assumes "mode img = ''P''" "getpalette img = Some pal" "pal \<noteq> []"
    and "info_transparency img = Some (TIndex t)"
  shows "(\<forall>out. fst (reproject ops other img lat_min lat_max calls) = Inr out \<longrightarrow>
            saved_mode out = ''P'' \<and> saved_palette out = Some pal
            \<and> saved_transparency out = Some (TIndex t)
            \<and> length (saved_pixels out) = length (pixels img)
            \<and> set (saved_pixels out) \<subseteq> set (pixels img))
         \<and> (\<forall>merc_max merc_min.
               merc_y ops lat_max = Inr merc_max \<and> merc_y ops lat_min = Inr merc_min \<longrightarrow>
               (\<exists>out. fst (reproject ops other img lat_min lat_max calls) = Inr out))
         \<and> (-90 < a \<and> a < 90 \<and> -90 < b \<and> b < 90 \<longrightarrow>
              (\<exists>out. fst (reproject (exact_ops pole) other img (Some a) (Some b) calls')
                        = Inr out))"
proof (intro conjI allI impI)
  have md: "mode img = ''P'' \<or> mode img = ''RGB'' \<or> mode img = ''RGBA''"
    using assms(1) by simp
  {
    fix out assume out: "fst (reproject ops other img lat_min lat_max calls) = Inr out"
    then obtain merc_max merc_min where
      mx: "merc_y ops lat_max = Inr merc_max" and mn: "merc_y ops lat_min = Inr merc_min"
    proof (cases "merc_y ops lat_max")
      case (Inl e)
      then show ?thesis using out by (simp add: reproject_raises_at_max)
    next
      case mx: (Inr merc_max)
      show ?thesis
      proof (cases "merc_y ops lat_min")
        case (Inl e)
        then show ?thesis using out mx by (simp add: reproject_raises_at_min)
      next
        case (Inr merc_min)
        then show ?thesis using mx that by blast
      qed
    qed
    let ?ys = "y_src ops lat_min lat_max (length (pixels img))
                 (lats ops (merc_vals ops merc_max merc_min (fraction ops (length (pixels img)))))"
    have o: "out = \<lparr> saved_mode = mode img,
                 saved_palette =
                   (if mode img = ''P'' \<and> truthy (getpalette img) then getpalette img else None),
                 saved_transparency = info_transparency img,
                 saved_pixels = map (\<lambda>k. pixels img ! nat k) ?ys \<rparr>"
      using out reproject_returns_image [OF mx mn md, of other calls] by simp
    show "saved_mode out = ''P''" using o assms(1) by simp
    show "saved_palette out = Some pal" using o assms(1-3) by (simp add: truthy_def)
    show "saved_transparency out = Some (TIndex t)" using o assms(4) by simp
    show "length (saved_pixels out) = length (pixels img)" using o by (simp add: y_src_length)
    show "set (saved_pixels out) \<subseteq> set (pixels img)"
      using o selected_rows_subset [OF y_src_in_range] by simp
  }
  {
    fix merc_max merc_min
    assume "merc_y ops lat_max = Inr merc_max \<and> merc_y ops lat_min = Inr merc_min"
    then show "\<exists>out. fst (reproject ops other img lat_min lat_max calls) = Inr out"
      using reproject_returns_image [of ops lat_max merc_max lat_min merc_min img other calls] md
      by simp
  }
  {
    assume "-90 < a \<and> a < 90 \<and> -90 < b \<and> b < 90"
    then have "merc_y (exact_ops pole) (Some b) = Inr (Some (mercatorY b))"
      "merc_y (exact_ops pole) (Some a) = Inr (Some (mercatorY a))"
      by (simp_all add: merc_y_exact_inside)
    then show "\<exists>out. fst (reproject (exact_ops pole) other img (Some a) (Some b) calls') = Inr out"
      using reproject_returns_image
        [of "exact_ops pole" "Some b" "Some (mercatorY b)" "Some a" "Some (mercatorY a)"
            img other calls'] md
      by simp
  }
qed

text \<open>A three-row palette image with transparency index 0 and the extent \<open>[7, 75]\<close>.\<close>

theorem reproject_keeps_palette_witness:
  "\<exists>out. fst (reproject exact (\<lambda>m a. Inl FromarrayError)
                 \<lparr> mode = ''P'', getpalette = Some [0, 0, 0, 255, 128, 0],
                   info_transparency = Some (TIndex 0),
                   pixels = [[0, 1], [1, 1], [1, 0 :: nat]] \<rparr> (Some 7) (Some 75) []) = Inr out
        \<and> saved_mode out = ''P'' \<and> saved_palette out = Some [0, 0, 0, 255, 128, 0]
        \<and> saved_transparency out = Some (TIndex 0)
        \<and> length (saved_pixels out) = 3"
proof -
  let ?img = "\<lparr> mode = ''P'', getpalette = Some [0, 0, 0, 255, 128, 0],
                 info_transparency = Some (TIndex 0),
                 pixels = [[0, 1], [1, 1], [1, 0 :: nat]] \<rparr>"
  let ?other = "\<lambda>(m::string) (a::nat list list). (Inl FromarrayError :: error + nat list list)"
  have k: "(\<forall>out. fst (reproject exact ?other ?img (Some 7) (Some 75) []) = Inr out \<longrightarrow>
            saved_mode out = ''P'' \<and> saved_palette out = Some [0, 0, 0, 255, 128, 0]
            \<and> saved_transparency out = Some (TIndex 0)
            \<and> length (saved_pixels out) = length (pixels ?img)
            \<and> set (saved_pixels out) \<subseteq> set (pixels ?img))
         \<and> (\<forall>merc_max merc_min.
               merc_y exact (Some 75) = Inr merc_max \<and> merc_y exact (Some 7) = Inr merc_min \<longrightarrow>
               (\<exists>out. fst (reproject exact ?other ?img (Some 7) (Some 75) []) = Inr out))
         \<and> (-90 < (7::real) \<and> (7::real) < 90 \<and> -90 < (75::real) \<and> (75::real) < 90 \<longrightarrow>
              (\<exists>out. fst (reproject (exact_ops (\<lambda>x. None)) ?other ?img (Some 7) (Some 75) [])
                        = Inr out))"
    by (rule reproject_keeps_palette) simp_all
  then obtain out where out: "fst (reproject exact ?other ?img (Some 7) (Some 75) []) = Inr out"
    unfolding exact_def by auto
  with k show ?thesis by auto
qed

end
